theory Spec2Isabelle
  imports Complex_Main "HOL-Library.Char_ord" "HOL-Library.List_Lexorder"
begin

section \<open>Strings, numbers and errors of the server\<close>

text \<open>
  The server is one JavaScript module (an Express application). Its strings are modelled
  as \<^typ>\<open>string\<close> over the ASCII alphabet; \<open>String(x || '')\<close> is the identity on a
  string, and a missing field is the empty string (the source treats both alike, every
  read being guarded by \<open>|| ''\<close> or by a truthiness test). The comparison \<open>a < b\<close> of two
  JavaScript strings is the lexicographic order of their code units, which on ASCII is
  the order of \<^typ>\<open>string\<close> given by the character codes.
\<close>

definition upperChar :: "char \<Rightarrow> char" where
  "upperChar c =
     (case map_of (zip ''abcdefghijklmnopqrstuvwxyz'' ''ABCDEFGHIJKLMNOPQRSTUVWXYZ'') c of
        Some u \<Rightarrow> u
      | None \<Rightarrow> c)"

definition toUpperCase :: "string \<Rightarrow> string" where
  "toUpperCase s = map upperChar s"

definition isSpace :: "char \<Rightarrow> bool" where
  "isSpace c = (c \<in> set [CHR '' '', CHR 0x09, CHR 0x0A, CHR 0x0B, CHR 0x0C, CHR 0x0D])"

definition trim :: "string \<Rightarrow> string" where
  "trim s = rev (dropWhile isSpace (rev (dropWhile isSpace s)))"

text \<open>\<open>a || b\<close> on strings: the first operand unless it is empty (falsy).\<close>

definition orElse :: "string \<Rightarrow> string \<Rightarrow> string" where
  "orElse a b = (if a = [] then b else a)"

text \<open>
  The messages of \<open>createHttpError\<close>, by their meaning (the source's texts are Korean):
  one constructor for each message text that the modelled functions throw.
\<close>

datatype message =
    GroupAndIdRequired          \<comment> \<open>buildSessionKey: group and identification number are required\<close>
  | FieldRequired string        \<comment> \<open>requireBodyFields: the value of the named field is required\<close>
  | SessionNotFound             \<comment> \<open>the routes: the session cannot be found\<close>
  | SaveStage2MemoFirst         \<comment> \<open>save the stage-2 memo (the draft) first\<close>
  | SaveStage3MemoFirst         \<comment> \<open>save the stage-3 memo (the notes) first\<close>
  | CompletePreviousStages      \<comment> \<open>complete the previous stages before moving to the final stage\<close>
  | GroupHasNoStage3            \<comment> \<open>this group has no stage 3\<close>
  | SubmitPrewritingFirst       \<comment> \<open>submit the prewriting first\<close>
  | FinalConditionsNotMet       \<comment> \<open>the conditions for moving to the final stage are not met\<close>
  | PrewritingAlreadySubmitted  \<comment> \<open>the prewriting has already been submitted\<close>
  | NoFinalText                 \<comment> \<open>there is no text to submit as the final writing\<close>
  | CannotPairWithSelf          \<comment> \<open>a session cannot be matched with itself\<close>

text \<open>\<open>createHttpError(status, message)\<close>: every error the code throws carries an HTTP status.\<close>

datatype error = HttpError nat message

section \<open>IdentityCodec\<close>

definition buildSessionKey :: "string \<Rightarrow> string \<Rightarrow> error + string" where
  "buildSessionKey grp studentId' =
     (let g = toUpperCase grp; sid = trim studentId'
      in if g = [] \<or> sid = [] then Inl (HttpError 400 GroupAndIdRequired)
         else Inr (g @ ''|'' @ sid))"

text \<open>
  \<open>md5\<close> is \<open>crypto.createHash('md5')\<close> with a hexadecimal digest: a library function,
  taken as the parameter \<open>md5\<close>. \<open>slice(0, 12)\<close> is \<^term>\<open>take 12\<close>.
\<close>

definition makeSoloRoomId :: "(string \<Rightarrow> string) \<Rightarrow> string \<Rightarrow> string \<Rightarrow> string" where
  "makeSoloRoomId md5 grp studentId' = ''solo_'' @ take 12 (md5 (grp @ ''|'' @ studentId'))"

definition makePairRoomId :: "(string \<Rightarrow> string) \<Rightarrow> string \<Rightarrow> string \<Rightarrow> string" where
  "makePairRoomId md5 keyA' keyB' =
     (let a = trim keyA'; b = trim keyB';
          left = (if a < b then a else b);
          right = (if a < b then b else a)
      in ''r_'' @ take 12 (md5 (left @ ''|'' @ right)))"

section \<open>Sessions\<close>

text \<open>
  The record that \<open>createSession\<close> builds. The field \<open>group\<close> is named \<open>groupTag\<close> here.
  A stage is a JavaScript number: the jump route stores whatever number its clamp
  returns, so the field is a \<^typ>\<open>real\<close> (only compared, never computed with).
  Timestamps are values of \<open>Date.now()\<close>, whole milliseconds.
\<close>

record session =
  sessionKey :: string
  groupTag :: string
  studentId :: string
  studentName :: string
  roomId :: string
  stage :: real
  preText :: string
  preSubmittedAt :: int
  draftText :: string
  draftSavedAt :: int
  notesText :: string
  notesUpdatedAt :: int
  finalText :: string
  finalSubmittedAt :: int
  partnerStudentId :: string
  partnerName :: string
  createdAt :: int
  updatedAt :: int

text \<open>A row of \<open>store.matchups\<close> and the hint \<open>findMatchForStudent\<close> returns for it.\<close>

record matchup =
  rowRoomId :: string
  studentIdA :: string
  nameA :: string
  studentIdB :: string
  nameB :: string
  rowGroup :: string

record partnerHint =
  hintRoomId :: string
  hintPartnerId :: string
  hintPartnerName :: string
  keyA :: string
  keyB :: string

text \<open>
  \<open>Array.prototype.find\<close> returns the first matching object itself, which the caller then
  mutates in place: the model finds its index and updates the list there.
\<close>

fun findIndex :: "('a \<Rightarrow> bool) \<Rightarrow> 'a list \<Rightarrow> nat option" where
  "findIndex P [] = None"
| "findIndex P (x # xs) = (if P x then Some 0 else map_option Suc (findIndex P xs))"

definition findSession :: "session list \<Rightarrow> string \<Rightarrow> nat option" where
  "findSession sessions key = findIndex (\<lambda>s. sessionKey s = key) sessions"

fun findMatchForStudent ::
  "(string \<Rightarrow> string) \<Rightarrow> matchup list \<Rightarrow> string \<Rightarrow> string \<Rightarrow> string \<Rightarrow> partnerHint option" where
  "findMatchForStudent md5 [] grp studentId' studentName' = None"
| "findMatchForStudent md5 (row # rows) grp studentId' studentName' =
     (let upperGroup = toUpperCase grp; sid = trim studentId'; sname = trim studentName'
      in if rowGroup row \<noteq> [] \<and> toUpperCase (rowGroup row) \<noteq> upperGroup
         then findMatchForStudent md5 rows grp studentId' studentName'
         else
           let aId = trim (studentIdA row); bId = trim (studentIdB row);
               aName = trim (nameA row); bName = trim (nameB row);
               matches =
                 ((aId \<noteq> [] \<and> aId = sid) \<or> (bId \<noteq> [] \<and> bId = sid) \<or>
                  (aName \<noteq> [] \<and> aName = sname) \<or> (bName \<noteq> [] \<and> bName = sname))
           in if matches
              then Some \<lparr>
                hintRoomId =
                  orElse (rowRoomId row) (makePairRoomId md5 (orElse aId aName) (orElse bId bName)),
                hintPartnerId = (if aId = sid then bId else aId),
                hintPartnerName = (if aId = sid then bName else aName),
                keyA = orElse aId aName,
                keyB = orElse bId bName \<rparr>
              else findMatchForStudent md5 rows grp studentId' studentName')"

text \<open>
  The two tests that the loop of \<open>findMatchForStudent\<close> makes on a row (the group filter
  and \<open>matches\<close>), and the room it returns for the row that passes them.
\<close>

definition rowMatches :: "string \<Rightarrow> string \<Rightarrow> string \<Rightarrow> matchup \<Rightarrow> bool" where
  "rowMatches grp studentId' studentName' row =
     (let upperGroup = toUpperCase grp; sid = trim studentId'; sname = trim studentName';
          aId = trim (studentIdA row); bId = trim (studentIdB row);
          aName = trim (nameA row); bName = trim (nameB row)
      in (rowGroup row = [] \<or> toUpperCase (rowGroup row) = upperGroup)
         \<and> ((aId \<noteq> [] \<and> aId = sid) \<or> (bId \<noteq> [] \<and> bId = sid) \<or>
            (aName \<noteq> [] \<and> aName = sname) \<or> (bName \<noteq> [] \<and> bName = sname)))"

definition rowRoom :: "(string \<Rightarrow> string) \<Rightarrow> matchup \<Rightarrow> string" where
  "rowRoom md5 row =
     orElse (rowRoomId row)
       (makePairRoomId md5
          (orElse (trim (studentIdA row)) (trim (nameA row)))
          (orElse (trim (studentIdB row)) (trim (nameB row))))"

definition createSession ::
  "(string \<Rightarrow> string) \<Rightarrow> int \<Rightarrow> string \<Rightarrow> string \<Rightarrow> string \<Rightarrow> partnerHint option
     \<Rightarrow> error + session" where
  "createSession md5 now grp studentId' studentName' hint =
     (case buildSessionKey grp studentId' of
        Inl e \<Rightarrow> Inl e
      | Inr key \<Rightarrow>
          Inr \<lparr>
            sessionKey = key,
            groupTag = toUpperCase grp,
            studentId = trim studentId',
            studentName = trim studentName',
            roomId =
              (case hint of
                 Some h \<Rightarrow> orElse (hintRoomId h) (makePairRoomId md5 (keyA h) (keyB h))
               | None \<Rightarrow> makeSoloRoomId md5 grp studentId'),
            stage = 1,
            preText = [],
            preSubmittedAt = 0,
            draftText = [],
            draftSavedAt = 0,
            notesText = [],
            notesUpdatedAt = 0,
            finalText = [],
            finalSubmittedAt = 0,
            partnerStudentId = (case hint of Some h \<Rightarrow> hintPartnerId h | None \<Rightarrow> []),
            partnerName = (case hint of Some h \<Rightarrow> hintPartnerName h | None \<Rightarrow> []),
            createdAt = now,
            updatedAt = now \<rparr>)"

text \<open>
  The pairing table is consulted only for the groups A and B. The result is the record
  and the new \<open>store.sessions\<close>: a new record is pushed at the end, a known one is updated
  in place.
\<close>

definition lookupHint ::
  "(string \<Rightarrow> string) \<Rightarrow> matchup list \<Rightarrow> string \<Rightarrow> string \<Rightarrow> string \<Rightarrow> partnerHint option" where
  "lookupHint md5 matchups grp studentId' studentName' =
     (if toUpperCase grp = ''A'' \<or> toUpperCase grp = ''B''
      then findMatchForStudent md5 matchups grp studentId' studentName'
      else None)"

definition ensureSession ::
  "(string \<Rightarrow> string) \<Rightarrow> int \<Rightarrow> matchup list \<Rightarrow> session list \<Rightarrow> string \<Rightarrow> string \<Rightarrow> string
     \<Rightarrow> error + (session \<times> session list)" where
  "ensureSession md5 now matchups sessions grp studentId' studentName' =
     (case buildSessionKey grp studentId' of
        Inl e \<Rightarrow> Inl e
      | Inr key \<Rightarrow>
          let hint = lookupHint md5 matchups grp studentId' studentName'
          in case findSession sessions key of
               None \<Rightarrow>
                 (case createSession md5 now grp studentId' studentName' hint of
                    Inl e \<Rightarrow> Inl e
                  | Inr r \<Rightarrow> Inr (r, sessions @ [r]))
             | Some i \<Rightarrow>
                 let r = sessions ! i;
                     r1 = r\<lparr>studentName := trim (orElse studentName' (studentName r))\<rparr>;
                     r2 = (if roomId r1 = []
                           then r1\<lparr>roomId :=
                                  (case hint of
                                     Some h \<Rightarrow> orElse (hintRoomId h) (roomId r1)
                                   | None \<Rightarrow> makeSoloRoomId md5 grp studentId')\<rparr>
                           else r1);
                     r3 = (case hint of
                             Some h \<Rightarrow>
                               r2\<lparr>partnerStudentId :=
                                    orElse (hintPartnerId h) (orElse (partnerStudentId r2) []),
                                  partnerName :=
                                    orElse (hintPartnerName h) (orElse (partnerName r2) [])\<rparr>
                           | None \<Rightarrow> r2);
                     r4 = r3\<lparr>updatedAt := now\<rparr>
                 in Inr (r4, sessions[i := r4]))"

section \<open>StageMachine\<close>

text \<open>\<open>Number(record.stage || 1)\<close>: a stage of 0 reads as 1.\<close>

definition stageOf :: "session \<Rightarrow> real" where
  "stageOf r = (if stage r = 0 then 1 else stage r)"

text \<open>The test \<open>peerEnabled\<close> of \<open>stepsFromRecord\<close> and \<open>buildSessionState\<close>.\<close>

definition peerEnabled :: "string \<Rightarrow> bool" where
  "peerEnabled grp = (toUpperCase grp = ''A'' \<or> toUpperCase grp = ''B'')"

definition ensureStage :: "int \<Rightarrow> real \<Rightarrow> session \<Rightarrow> session" where
  "ensureStage now target r = r\<lparr>stage := target, updatedAt := now\<rparr>"

definition handleAdvanceToPeer :: "int \<Rightarrow> session \<Rightarrow> error + session" where
  "handleAdvanceToPeer now r =
     (let st = stageOf r; g = toUpperCase (groupTag r)
      in if st = 2 then
           (if draftText r = [] then Inl (HttpError 400 SaveStage2MemoFirst)
            else if g = ''C'' then Inr (ensureStage now 4 r)
            else Inr (ensureStage now 3 r))
         else if st = 3 then
           (if notesText r = [] then Inl (HttpError 400 SaveStage3MemoFirst)
            else Inr (ensureStage now 4 r))
         else if st < 2 then Inr (ensureStage now 2 r)
         else Inr r)"

definition handleAdvanceToFinal :: "int \<Rightarrow> session \<Rightarrow> error + session" where
  "handleAdvanceToFinal now r =
     (let g = toUpperCase (groupTag r); st = stageOf r
      in if (g = ''A'' \<or> g = ''B'') \<and> notesText r = []
         then Inl (HttpError 400 SaveStage3MemoFirst)
         else if g \<noteq> ''C'' \<and> st < 3 then Inl (HttpError 400 CompletePreviousStages)
         else if draftText r = [] then Inl (HttpError 400 SaveStage2MemoFirst)
         else Inr (ensureStage now 4 (r\<lparr>finalText := orElse (finalText r) []\<rparr>)))"

text \<open>
  \<open>handleJump\<close> throws from one of its guards or falls through to \<open>ensureStage\<close>:
  \<open>jumpGuard\<close> is the guards in the source's order, \<open>None\<close> when none of them throws.
\<close>

definition jumpGuard :: "real \<Rightarrow> session \<Rightarrow> message option" where
  "jumpGuard desired r =
     (let g = toUpperCase (groupTag r); currentStage = stageOf r
      in if desired > currentStage then
           (if desired = 2 \<and> preText r = [] then Some SubmitPrewritingFirst
            else if desired = 3 \<and> draftText r = [] then Some SaveStage2MemoFirst
            else if desired = 4 then
              (if g = ''A'' \<or> g = ''B'' then
                 (if notesText r = [] then Some SaveStage3MemoFirst else None)
               else if g = ''C'' then
                 (if draftText r = [] then Some SaveStage2MemoFirst else None)
               else if finalText r = [] \<and> finalSubmittedAt r = 0
                 then Some FinalConditionsNotMet
               else None)
            else None)
         else
           (if desired = 2 \<and> preText r = [] then Some SubmitPrewritingFirst
            else if desired = 3 \<and> draftText r = [] then Some SaveStage2MemoFirst
            else None))"

definition handleJump :: "int \<Rightarrow> real \<Rightarrow> session \<Rightarrow> error + session" where
  "handleJump now desired r =
     (let g = toUpperCase (groupTag r); currentStage = stageOf r
      in if desired = 3 \<and> \<not> (g = ''A'' \<or> g = ''B'')
         then Inl (HttpError 400 GroupHasNoStage3)
         else if desired = currentStage then Inr r
         else case jumpGuard desired r of
                Some m \<Rightarrow> Inl (HttpError 400 m)
              | None \<Rightarrow> Inr (ensureStage now desired r))"

definition handleRegress :: "int \<Rightarrow> session \<Rightarrow> session" where
  "handleRegress now r =
     (let currentStage = stageOf r; g = toUpperCase (groupTag r)
      in if currentStage \<le> 1 then r
         else if currentStage = 2 then ensureStage now 1 r
         else if currentStage = 3 then ensureStage now 2 r
         else if currentStage \<ge> 4 then ensureStage now (if g = ''C'' then 2 else 3) r
         else r)"

subsection \<open>The session routes\<close>

text \<open>
  Each route finds the record by its key (status 404 when there is none) and then runs
  the body modelled here on that record. \<open>text\<close> is \<open>req.body.text\<close>, empty when the
  field is missing: \<open>requireBodyFields\<close> throws for both. Every throw of a route precedes
  its first assignment, so a route that fails leaves the record as it was.
\<close>

definition requireText :: "string \<Rightarrow> error option" where
  "requireText text = (if text = [] then Some (HttpError 400 (FieldRequired ''text'')) else None)"

definition postPrewriting :: "int \<Rightarrow> string \<Rightarrow> session \<Rightarrow> error + session" where
  "postPrewriting now text r =
     (case requireText text of
        Some e \<Rightarrow> Inl e
      | None \<Rightarrow>
          if preText r \<noteq> [] then Inl (HttpError 400 PrewritingAlreadySubmitted)
          else
            let r1 = r\<lparr>preText := trim text, preSubmittedAt := now\<rparr>;
                r2 = (if stageOf r1 < 2 then ensureStage now 2 r1 else r1)
            in Inr (r2\<lparr>updatedAt := now\<rparr>))"

definition postDraft :: "int \<Rightarrow> string \<Rightarrow> session \<Rightarrow> error + session" where
  "postDraft now text r =
     (case requireText text of
        Some e \<Rightarrow> Inl e
      | None \<Rightarrow>
          let r1 = r\<lparr>draftText := trim text, draftSavedAt := now\<rparr>;
              r2 = (if stageOf r1 < 2 then ensureStage now 2 r1 else r1)
          in Inr (r2\<lparr>updatedAt := now\<rparr>))"

definition postNotes :: "int \<Rightarrow> string \<Rightarrow> session \<Rightarrow> error + session" where
  "postNotes now text r =
     (case requireText text of
        Some e \<Rightarrow> Inl e
      | None \<Rightarrow>
          let r1 = r\<lparr>notesText := trim text, notesUpdatedAt := now\<rparr>;
              g = toUpperCase (groupTag r1);
              r2 = (if stageOf r1 < 3 \<and> (g = ''A'' \<or> g = ''B'') then ensureStage now 3 r1 else r1)
          in Inr (r2\<lparr>updatedAt := now\<rparr>))"

definition postFinal :: "int \<Rightarrow> string \<Rightarrow> session \<Rightarrow> error + session" where
  "postFinal now text r =
     (case requireText text of
        Some e \<Rightarrow> Inl e
      | None \<Rightarrow>
          if trim text = [] then Inl (HttpError 400 NoFinalText)
          else Inr (ensureStage now 4 (r\<lparr>finalText := trim text, finalSubmittedAt := now\<rparr>)))"

text \<open>
  The jump route's argument: \<open>Number(req.body?.stage || 0)\<close> is any JavaScript number.
  \<open>|| 1\<close> replaces 0 and NaN by 1, then \<open>Math.max(1, _)\<close> and \<open>Math.min(5, _)\<close> clamp.
\<close>

datatype jsnum = Num real | NaN | PosInfinity | NegInfinity

definition jumpDesired :: "jsnum \<Rightarrow> real" where
  "jumpDesired n =
     (case n of
        Num x \<Rightarrow> min 5 (max 1 (if x = 0 then 1 else x))
      | NaN \<Rightarrow> min 5 (max 1 1)
      | PosInfinity \<Rightarrow> 5
      | NegInfinity \<Rightarrow> 1)"

definition postJump :: "int \<Rightarrow> jsnum \<Rightarrow> session \<Rightarrow> error + session" where
  "postJump now n r = handleJump now (jumpDesired n) r"

text \<open>
  One request to a session, and the record after it: the new record when the route
  succeeds, the old one when it throws. \<open>runRequests\<close> is a sequence of requests, each at
  its own time.
\<close>

datatype request =
    Advance | AdvanceFinal | Jump jsnum | Regress
  | Prewriting string | Draft string | Notes string | Final string

fun route :: "int \<Rightarrow> request \<Rightarrow> session \<Rightarrow> error + session" where
  "route now Advance r = handleAdvanceToPeer now r"
| "route now AdvanceFinal r = handleAdvanceToFinal now r"
| "route now (Jump n) r = postJump now n r"
| "route now Regress r = Inr (handleRegress now r)"
| "route now (Prewriting text) r = postPrewriting now text r"
| "route now (Draft text) r = postDraft now text r"
| "route now (Notes text) r = postNotes now text r"
| "route now (Final text) r = postFinal now text r"

definition afterRequest :: "int \<Rightarrow> request \<Rightarrow> session \<Rightarrow> session" where
  "afterRequest now req r = (case route now req r of Inl e \<Rightarrow> r | Inr r' \<Rightarrow> r')"

fun runRequests :: "(int \<times> request) list \<Rightarrow> session \<Rightarrow> session" where
  "runRequests [] r = r"
| "runRequests ((now, req) # rest) r = runRequests rest (afterRequest now req r)"

section \<open>PartnerMatcher\<close>

text \<open>
  The body of the administrator's request to assign a partner; a missing field is the
  empty string.
\<close>

record partnerPayload =
  partnerSessionKey :: string
  payloadPartnerId :: string
  payloadPartnerName :: string

text \<open>
  \<open>resolvePartner\<close> is the lookup at the head of \<open>assignPartnerRecord\<close>: by session key
  first, then by the identifier within the record's own group.
\<close>

definition resolvePartner :: "session list \<Rightarrow> session \<Rightarrow> partnerPayload \<Rightarrow> nat option" where
  "resolvePartner sessions record payload =
     (let pKey = trim (partnerSessionKey payload); pId = trim (payloadPartnerId payload);
          byKey = (if pKey = [] then None else findSession sessions pKey)
      in case byKey of
           Some j \<Rightarrow> Some j
         | None \<Rightarrow>
             if pId = [] then None
             else findIndex (\<lambda>s. groupTag s = groupTag record \<and> studentId s = pId) sessions)"

text \<open>
  \<open>assignPartnerRecord\<close> mutates the record (at index \<open>i\<close> of \<open>store.sessions\<close>) and the
  partner record it resolves (at index \<open>j\<close>). The two are distinct objects when the call
  does not throw, their session keys being different.
\<close>

definition assignPartnerRecord ::
  "(string \<Rightarrow> string) \<Rightarrow> int \<Rightarrow> session list \<Rightarrow> nat \<Rightarrow> partnerPayload \<Rightarrow> error + session list" where
  "assignPartnerRecord md5 now sessions i payload =
     (let record = sessions ! i
      in case resolvePartner sessions record payload of
           Some j \<Rightarrow>
             let partnerRecord = sessions ! j
             in if sessionKey partnerRecord = sessionKey record
                then Inl (HttpError 400 CannotPairWithSelf)
                else
                  let room =
                        orElse (roomId record)
                          (orElse (roomId partnerRecord)
                             (makePairRoomId md5 (sessionKey record) (sessionKey partnerRecord)))
                  in Inr (sessions
                       [i := record\<lparr>roomId := room,
                                    partnerStudentId := studentId partnerRecord,
                                    partnerName := studentName partnerRecord,
                                    updatedAt := now\<rparr>,
                        j := partnerRecord\<lparr>roomId := room,
                                    partnerStudentId := studentId record,
                                    partnerName := studentName record,
                                    updatedAt := now\<rparr>])
         | None \<Rightarrow>
             Inr (sessions
               [i := record\<lparr>partnerStudentId := orElse (trim (payloadPartnerId payload)) [],
                            partnerName := orElse (trim (payloadPartnerName payload)) [],
                            updatedAt := now\<rparr>]))"

definition clearFields :: "int \<Rightarrow> session \<Rightarrow> session" where
  "clearFields now r = r\<lparr>partnerStudentId := [], partnerName := [], updatedAt := now\<rparr>"

definition clearPartnerRecord :: "int \<Rightarrow> session list \<Rightarrow> nat \<Rightarrow> session list" where
  "clearPartnerRecord now sessions i =
     (let record = sessions ! i;
          sessions1 =
            (if partnerStudentId record = [] then sessions
             else
               case findIndex
                      (\<lambda>s. groupTag s = groupTag record \<and> studentId s = partnerStudentId record)
                      sessions of
                 None \<Rightarrow> sessions
               | Some j \<Rightarrow>
                   if partnerStudentId (sessions ! j) = studentId record
                   then sessions[j := clearFields now (sessions ! j)]
                   else sessions)
      in sessions1[i := clearFields now (sessions1 ! i)])"

text \<open>The two administrator routes: the record is found by its key, else status 404.\<close>

definition postPartner ::
  "(string \<Rightarrow> string) \<Rightarrow> int \<Rightarrow> session list \<Rightarrow> string \<Rightarrow> partnerPayload \<Rightarrow> error + session list" where
  "postPartner md5 now sessions key payload =
     (case findSession sessions key of
        None \<Rightarrow> Inl (HttpError 404 SessionNotFound)
      | Some i \<Rightarrow> assignPartnerRecord md5 now sessions i payload)"

definition deletePartner :: "int \<Rightarrow> session list \<Rightarrow> string \<Rightarrow> error + session list" where
  "deletePartner now sessions key =
     (case findSession sessions key of
        None \<Rightarrow> Inl (HttpError 404 SessionNotFound)
      | Some i \<Rightarrow> Inr (clearPartnerRecord now sessions i))"

text \<open>A record names another as its partner by that record's identifier.\<close>

definition references :: "session \<Rightarrow> session \<Rightarrow> bool" where
  "references p q = (partnerStudentId p \<noteq> [] \<and> partnerStudentId p = studentId q)"

section \<open>PresenceTracker\<close>

text \<open>
  \<open>presenceMap\<close> is a \<open>Map\<close> from the key \<open>roomId|studentId\<close> to the time of the last
  heartbeat. \<open>Date.now()\<close> is the argument \<open>now\<close>.
\<close>

type_synonym presenceMap = "string \<rightharpoonup> int"

definition PRESENCE_TTL_MS :: int where
  "PRESENCE_TTL_MS = 20000"

definition presenceKey :: "string \<Rightarrow> string \<Rightarrow> string" where
  "presenceKey room sid = room @ ''|'' @ sid"

text \<open>The result is the timestamp of \<open>{ok: true, timestamp}\<close>, or \<open>None\<close> for \<open>{ok: false}\<close>.\<close>

definition touchPresence ::
  "int \<Rightarrow> presenceMap \<Rightarrow> string \<Rightarrow> string \<Rightarrow> int option \<times> presenceMap" where
  "touchPresence now pm room sid =
     (if room = [] \<or> sid = [] then (None, pm)
      else (Some now, pm(presenceKey room sid \<mapsto> now)))"

definition markLeave :: "presenceMap \<Rightarrow> string \<Rightarrow> string \<Rightarrow> presenceMap" where
  "markLeave pm room sid = pm(presenceKey room sid := None)"

definition readPresence :: "presenceMap \<Rightarrow> string \<Rightarrow> string \<Rightarrow> int" where
  "readPresence pm room sid =
     (if room = [] \<or> sid = [] then 0
      else case pm (presenceKey room sid) of None \<Rightarrow> 0 | Some v \<Rightarrow> (if v = 0 then 0 else v))"

record presenceInfo =
  lastSeen :: int
  online :: bool

record presenceSummary =
  self :: presenceInfo
  partner :: "presenceInfo option"

text \<open>
  \<open>isOnline(ts)\<close> is \<open>ts && now - ts < PRESENCE_TTL_MS\<close>; the model keeps its truth value
  (for \<open>ts = 0\<close> the JavaScript value is the falsy number 0).
\<close>

definition isOnline :: "int \<Rightarrow> int \<Rightarrow> bool" where
  "isOnline now ts = (ts \<noteq> 0 \<and> now - ts < PRESENCE_TTL_MS)"

definition buildPresenceSummary ::
  "int \<Rightarrow> presenceMap \<Rightarrow> string \<Rightarrow> string \<Rightarrow> string \<Rightarrow> presenceSummary" where
  "buildPresenceSummary now pm room sid partnerSid =
     (let selfTs = readPresence pm room sid;
          partnerTs = (if partnerSid = [] then 0 else readPresence pm room partnerSid)
      in \<lparr> self = \<lparr> lastSeen = selfTs, online = isOnline now selfTs \<rparr>,
           partner =
             (if partnerSid = [] then None
              else Some \<lparr> lastSeen = partnerTs, online = isOnline now partnerTs \<rparr>) \<rparr>)"

subsection \<open>Example records\<close>

text \<open>
  The record \<open>createSession\<close> returns for an upper-case group and a trimmed id when no
  pairing hint is given: the concrete input of the evaluations below. Its room id stands
  for \<open>solo_\<close> and the first twelve characters of a digest.
\<close>

definition freshSession :: "string \<Rightarrow> string \<Rightarrow> session" where
  "freshSession grp sid =
     \<lparr> sessionKey = grp @ ''|'' @ sid,
       groupTag = grp,
       studentId = sid,
       studentName = ''Kim'',
       roomId = ''solo_0123456789ab'',
       stage = 1,
       preText = [],
       preSubmittedAt = 0,
       draftText = [],
       draftSavedAt = 0,
       notesText = [],
       notesUpdatedAt = 0,
       finalText = [],
       finalSubmittedAt = 0,
       partnerStudentId = [],
       partnerName = [],
       createdAt = 1700000000000,
       updatedAt = 1700000000000 \<rparr>"

definition exampleMatchups :: "matchup list" where
  "exampleMatchups =
     [\<lparr> rowRoomId = [], studentIdA = ''S1'', nameA = ''Kim'',
         studentIdB = ''S2'', nameB = ''Lee'', rowGroup = ''A'' \<rparr>]"

definition exampleRowC :: matchup where
  "exampleRowC =
     \<lparr> rowRoomId = [], studentIdA = ''S1'', nameA = ''Kim'',
       studentIdB = ''S2'', nameB = ''Lee'', rowGroup = ''C'' \<rparr>"

section \<open>Evaluation of the string functions on the examples\<close>

lemma upperChar_simps:
  "upperChar CHR ''a'' = CHR ''A''" "upperChar CHR ''A'' = CHR ''A''"
  "upperChar CHR ''B'' = CHR ''B''" "upperChar CHR ''C'' = CHR ''C''"
  "upperChar CHR ''D'' = CHR ''D''" "upperChar CHR ''|'' = CHR ''|''"
  by (simp_all add: upperChar_def)

lemma toUpperCase_examples:
  "toUpperCase '''' = []"
  "toUpperCase ''a'' = ''A''" "toUpperCase ''A'' = ''A''" "toUpperCase ''B'' = ''B''"
  "toUpperCase ''C'' = ''C''" "toUpperCase ''D'' = ''D''"
  by (simp_all add: toUpperCase_def upperChar_simps)

lemma trim_examples:
  "trim '' S1 '' = ''S1''" "trim ''S1'' = ''S1''" "trim ''C'' = ''C''" "trim ''B|C'' = ''B|C''"
  by (simp_all add: trim_def isSpace_def)

text \<open>
  \<open>freshSession\<close> is what \<open>createSession\<close> returns, here for a digest that starts with
  \<open>0123456789ab\<close>.
\<close>

lemma createSession_freshSession:
  "createSession (\<lambda>t. ''0123456789abcdef0123456789abcdef'') 1700000000000 ''A'' ''S1'' ''Kim'' None
     = Inr (freshSession ''A'' ''S1'')"
  by (simp add: createSession_def buildSessionKey_def toUpperCase_examples trim_examples
      trim_def isSpace_def makeSoloRoomId_def freshSession_def)

section \<open>Properties of the identity codec\<close>

text \<open>
  C3. For all strings \<open>a\<close> and \<open>b\<close>, the pair-room identifier of \<open>(a, b)\<close> equals that of
  \<open>(b, a)\<close>: the two trimmed keys are put in lexicographic order before they are hashed,
  whatever the hash function is.
\<close>

theorem makePairRoomId_commute:
  "makePairRoomId md5 a b = makePairRoomId md5 b a"
proof -
  let ?a = "trim a" and ?b = "trim b"
  consider (lt) "?a < ?b" | (eq) "?a = ?b" | (gt) "?b < ?a"
    using less_linear by blast
  then show ?thesis
  proof cases
    case lt
    then have "\<not> ?b < ?a" by simp
    with lt show ?thesis by (simp add: makePairRoomId_def Let_def)
  next
    case eq
    then show ?thesis by (simp add: makePairRoomId_def Let_def)
  next
    case gt
    then have "\<not> ?a < ?b" by simp
    with gt show ?thesis by (simp add: makePairRoomId_def Let_def)
  qed
qed

text \<open>
  A key splits in one way only at its first separator when the part before it has none.
\<close>

lemma split_at_separator:
  "x \<notin> set xs \<Longrightarrow> x \<notin> set xs' \<Longrightarrow> xs @ x # ys = xs' @ x # ys' \<Longrightarrow> xs = xs' \<and> ys = ys'"
proof (induction xs arbitrary: xs')
  case Nil
  then show ?case by (cases xs') auto
next
  case (Cons a xs)
  then show ?case by (cases xs') auto
qed

text \<open>
  C6, as amended. \<open>buildSessionKey\<close> upper-cases the group and trims the identifier; it
  fails with status 400 when either is then empty, and otherwise returns the two joined
  by the separator \<open>|\<close>. Being a function it gives equal keys for equal inputs. Two pairs
  with the same key have the same upper-cased group and the same trimmed identifier,
  provided that neither upper-cased group contains the separator.
\<close>

theorem buildSessionKey_normalises_and_separates:
  "(toUpperCase g = [] \<or> trim s = [] \<longrightarrow>
      buildSessionKey g s = Inl (HttpError 400 GroupAndIdRequired))
   \<and> (toUpperCase g \<noteq> [] \<and> trim s \<noteq> [] \<longrightarrow>
      buildSessionKey g s = Inr (toUpperCase g @ ''|'' @ trim s))
   \<and> (buildSessionKey g s = Inr k \<and> buildSessionKey g' s' = Inr k
        \<and> CHR ''|'' \<notin> set (toUpperCase g) \<and> CHR ''|'' \<notin> set (toUpperCase g')
      \<longrightarrow> toUpperCase g = toUpperCase g' \<and> trim s = trim s')"
proof -
  have inj: "toUpperCase g = toUpperCase g' \<and> trim s = trim s'"
    if k: "buildSessionKey g s = Inr k" "buildSessionKey g' s' = Inr k"
      and bar: "CHR ''|'' \<notin> set (toUpperCase g)" "CHR ''|'' \<notin> set (toUpperCase g')"
  proof -
    from k have "toUpperCase g @ CHR ''|'' # trim s = toUpperCase g' @ CHR ''|'' # trim s'"
      by (auto simp: buildSessionKey_def Let_def split: if_splits)
    with bar show ?thesis by (rule split_at_separator)
  qed
  show ?thesis using inj by (auto simp: buildSessionKey_def)
qed

theorem buildSessionKey_normalises_and_separates_witness:
  "buildSessionKey '''' ''S1'' = Inl (HttpError 400 GroupAndIdRequired)
   \<and> buildSessionKey ''a'' '' S1 '' = Inr ''A|S1''
   \<and> buildSessionKey ''A'' ''S1'' = Inr ''A|S1''
   \<and> CHR ''|'' \<notin> set (toUpperCase ''a'') \<and> CHR ''|'' \<notin> set (toUpperCase ''A'')
   \<and> toUpperCase ''a'' = toUpperCase ''A'' \<and> trim '' S1 '' = trim ''S1''"
proof -
  note up = toUpperCase_examples(1,2,3)
  note tr = trim_examples(1,2)
  have k0: "buildSessionKey '''' ''S1'' = Inl (HttpError 400 GroupAndIdRequired)"
    using buildSessionKey_normalises_and_separates
      [of "''''" "''S1''" "''A|S1''" "''A''" "''S1''", THEN conjunct1]
    by (simp add: up)
  have k1: "buildSessionKey ''a'' '' S1 '' = Inr ''A|S1''"
    using buildSessionKey_normalises_and_separates
      [of "''a''" "'' S1 ''" "''A|S1''" "''A''" "''S1''", THEN conjunct2, THEN conjunct1]
    by (simp add: up tr)
  have k2: "buildSessionKey ''A'' ''S1'' = Inr ''A|S1''"
    using buildSessionKey_normalises_and_separates
      [of "''A''" "''S1''" "''A|S1''" "''A''" "''S1''", THEN conjunct2, THEN conjunct1]
    by (simp add: up tr)
  have bar: "CHR ''|'' \<notin> set (toUpperCase ''a'')" "CHR ''|'' \<notin> set (toUpperCase ''A'')"
    by (simp_all add: up)
  have same: "toUpperCase ''a'' = toUpperCase ''A'' \<and> trim '' S1 '' = trim ''S1''"
    using buildSessionKey_normalises_and_separates
      [of "''a''" "'' S1 ''" "''A|S1''" "''A''" "''S1''", THEN conjunct2, THEN conjunct2]
      k1 k2 bar
    by (simp only: simp_thms)
  from k0 k1 k2 bar same show ?thesis by (simp only: simp_thms)
qed

text \<open>
  The keys are not free of collisions as they stand: the separator may occur in a group
  or in an identifier. The two distinct pairs below are both valid, already upper-case and
  trimmed, and have the same key.
\<close>

theorem buildSessionKey_collision:
  "(''A|B'', ''C'') \<noteq> (''A'', ''B|C'')
   \<and> buildSessionKey ''A|B'' ''C'' = Inr ''A|B|C''
   \<and> buildSessionKey ''A'' ''B|C'' = Inr ''A|B|C''"
  by (simp add: buildSessionKey_def toUpperCase_def upperChar_simps trim_examples)

section \<open>Sessions created by ensureSession\<close>

lemma rowRoom_nonempty: "rowRoom md5 row \<noteq> []"
  by (simp add: rowRoom_def orElse_def makePairRoomId_def Let_def)

lemma findMatchForStudent_None:
  "find (rowMatches grp sid sname) rows = None \<Longrightarrow>
     findMatchForStudent md5 rows grp sid sname = None"
proof (induction rows)
  case Nil
  then show ?case by simp
next
  case (Cons row rows)
  from Cons.prems have no: "\<not> rowMatches grp sid sname row"
    and rest: "find (rowMatches grp sid sname) rows = None"
    by (auto split: if_splits)
  from no Cons.IH[OF rest] show ?case
    by (auto simp: rowMatches_def Let_def)
qed

lemma findMatchForStudent_Some:
  "find (rowMatches grp sid sname) rows = Some row \<Longrightarrow>
     \<exists>h. findMatchForStudent md5 rows grp sid sname = Some h \<and> hintRoomId h = rowRoom md5 row"
proof (induction rows)
  case Nil
  then show ?case by simp
next
  case (Cons x rows)
  show ?case
  proof (cases "rowMatches grp sid sname x")
    case True
    with Cons.prems have "row = x" by simp
    with True show ?thesis
      by (auto simp: rowMatches_def rowRoom_def Let_def)
  next
    case False
    with Cons.prems have "find (rowMatches grp sid sname) rows = Some row" by simp
    from Cons.IH[OF this] obtain h
      where h: "findMatchForStudent md5 rows grp sid sname = Some h"
               "hintRoomId h = rowRoom md5 row"
      by blast
    from False have "findMatchForStudent md5 (x # rows) grp sid sname
        = findMatchForStudent md5 rows grp sid sname"
      by (auto simp: rowMatches_def Let_def)
    with h show ?thesis by simp
  qed
qed

text \<open>
  C10, as amended. The first call of \<open>ensureSession\<close> for a key (a valid group and
  identifier whose key no stored session has) succeeds and pushes one new record: at
  stage 1, with the four texts empty and their four timestamps 0, and with a room id that
  is not empty. When the group is A or B and a row of the pairing table matches, the room
  is that of the first matching row: the row's own room id or else the pair room of its
  two keys. Otherwise (no row matches, or the group is neither A nor B) it is the solo
  room.
\<close>

theorem ensureSession_first_call:
  assumes key: "buildSessionKey grp sid = Inr key"
    and new: "findSession sessions key = None"
  shows "\<exists>r. ensureSession md5 now matchups sessions grp sid sname = Inr (r, sessions @ [r])
      \<and> sessionKey r = key
      \<and> stage r = 1
      \<and> preText r = [] \<and> preSubmittedAt r = 0
      \<and> draftText r = [] \<and> draftSavedAt r = 0
      \<and> notesText r = [] \<and> notesUpdatedAt r = 0
      \<and> finalText r = [] \<and> finalSubmittedAt r = 0
      \<and> roomId r \<noteq> []
      \<and> (\<not> peerEnabled grp \<or> find (rowMatches grp sid sname) matchups = None \<longrightarrow>
            roomId r = makeSoloRoomId md5 grp sid)
      \<and> (\<forall>row. peerEnabled grp \<and> find (rowMatches grp sid sname) matchups = Some row \<longrightarrow>
            roomId r = rowRoom md5 row)"
proof (cases "peerEnabled grp")
  case False
  then have "lookupHint md5 matchups grp sid sname = None"
    by (simp add: lookupHint_def peerEnabled_def)
  with key new False show ?thesis
    by (simp add: ensureSession_def createSession_def makeSoloRoomId_def)
next
  case True
  then have lk: "lookupHint md5 matchups grp sid sname
                   = findMatchForStudent md5 matchups grp sid sname"
    by (simp add: lookupHint_def peerEnabled_def)
  show ?thesis
  proof (cases "find (rowMatches grp sid sname) matchups")
    case None
    from findMatchForStudent_None[OF None] lk
    have "lookupHint md5 matchups grp sid sname = None" by simp
    with key new True None show ?thesis
      by (simp add: ensureSession_def createSession_def makeSoloRoomId_def)
  next
    case (Some row)
    from findMatchForStudent_Some[OF Some] lk obtain h
      where h: "lookupHint md5 matchups grp sid sname = Some h" "hintRoomId h = rowRoom md5 row"
      by auto
    from h(2) rowRoom_nonempty[of md5 row] have ne: "hintRoomId h \<noteq> []" by simp
    with key new True Some h show ?thesis
      by (simp add: ensureSession_def createSession_def orElse_def)
  qed
qed

lemma exampleMatchups_find:
  "find (rowMatches ''a'' '' S1 '' ''Kim'') exampleMatchups
     = Some \<lparr> rowRoomId = [], studentIdA = ''S1'', nameA = ''Kim'',
              studentIdB = ''S2'', nameB = ''Lee'', rowGroup = ''A'' \<rparr>"
  by (simp add: exampleMatchups_def rowMatches_def toUpperCase_examples trim_examples
      trim_def isSpace_def Let_def)

lemma exampleMatchups_rowRoom:
  "rowRoom (\<lambda>t. ''0123456789abcdef0123456789abcdef'')
     \<lparr> rowRoomId = [], studentIdA = ''S1'', nameA = ''Kim'',
       studentIdB = ''S2'', nameB = ''Lee'', rowGroup = ''A'' \<rparr> = ''r_0123456789ab''"
  by (simp add: rowRoom_def orElse_def makePairRoomId_def trim_examples trim_def isSpace_def
      Let_def)

theorem ensureSession_first_call_witness:
  "buildSessionKey ''a'' '' S1 '' = Inr ''A|S1''
   \<and> findSession [] ''A|S1'' = None
   \<and> peerEnabled ''a''
   \<and> find (rowMatches ''a'' '' S1 '' ''Kim'') exampleMatchups
       = Some \<lparr> rowRoomId = [], studentIdA = ''S1'', nameA = ''Kim'',
                studentIdB = ''S2'', nameB = ''Lee'', rowGroup = ''A'' \<rparr>
   \<and> (\<exists>r. ensureSession (\<lambda>t. ''0123456789abcdef0123456789abcdef'') 1700000000000
              exampleMatchups [] ''a'' '' S1 '' ''Kim'' = Inr (r, [r])
          \<and> stage r = 1 \<and> preText r = [] \<and> roomId r = ''r_0123456789ab'')"
proof -
  have k: "buildSessionKey ''a'' '' S1 '' = Inr ''A|S1''"
    by (simp add: buildSessionKey_def toUpperCase_examples trim_examples)
  have n: "findSession [] ''A|S1'' = None"
    by (simp add: findSession_def)
  have p: "peerEnabled ''a''"
    by (simp add: peerEnabled_def toUpperCase_examples)
  from ensureSession_first_call[OF k n,
      of "\<lambda>t. ''0123456789abcdef0123456789abcdef''" 1700000000000 exampleMatchups "''Kim''"]
  obtain r where r: "ensureSession (\<lambda>t. ''0123456789abcdef0123456789abcdef'') 1700000000000
              exampleMatchups [] ''a'' '' S1 '' ''Kim'' = Inr (r, [] @ [r])"
    "stage r = 1" "preText r = []"
    "\<forall>row. peerEnabled ''a'' \<and> find (rowMatches ''a'' '' S1 '' ''Kim'') exampleMatchups = Some row
           \<longrightarrow> roomId r = rowRoom (\<lambda>t. ''0123456789abcdef0123456789abcdef'') row"
    by blast
  from r(4) p exampleMatchups_find exampleMatchups_rowRoom
  have "roomId r = ''r_0123456789ab''" by simp
  with r(1,2,3) k n p exampleMatchups_find show ?thesis by auto
qed

text \<open>
  A matching row alone does not give a pair room: the table is not consulted for a
  group other than A and B, and a new session of group C gets the solo room although a
  row of its group names it.
\<close>

theorem group_C_match_gets_solo_room:
  "rowMatches ''C'' ''S1'' ''Kim'' exampleRowC
   \<and> ensureSession (\<lambda>t. ''0123456789abcdef0123456789abcdef'') 1700000000000
        [exampleRowC] [] ''C'' ''S1'' ''Kim''
      = Inr (freshSession ''C'' ''S1'', [freshSession ''C'' ''S1''])
   \<and> roomId (freshSession ''C'' ''S1'')
      = makeSoloRoomId (\<lambda>t. ''0123456789abcdef0123456789abcdef'') ''C'' ''S1''
   \<and> roomId (freshSession ''C'' ''S1'')
      \<noteq> rowRoom (\<lambda>t. ''0123456789abcdef0123456789abcdef'') exampleRowC"
proof -
  have m: "rowMatches ''C'' ''S1'' ''Kim'' exampleRowC"
    by (simp add: rowMatches_def exampleRowC_def toUpperCase_examples trim_examples
        trim_def isSpace_def Let_def)
  have e: "ensureSession (\<lambda>t. ''0123456789abcdef0123456789abcdef'') 1700000000000
        [exampleRowC] [] ''C'' ''S1'' ''Kim''
      = Inr (freshSession ''C'' ''S1'', [freshSession ''C'' ''S1''])"
    by (simp add: ensureSession_def lookupHint_def createSession_def buildSessionKey_def
        findSession_def makeSoloRoomId_def freshSession_def toUpperCase_examples trim_examples
        trim_def isSpace_def)
  have s: "roomId (freshSession ''C'' ''S1'')
      = makeSoloRoomId (\<lambda>t. ''0123456789abcdef0123456789abcdef'') ''C'' ''S1''"
    by (simp add: freshSession_def makeSoloRoomId_def)
  have d: "roomId (freshSession ''C'' ''S1'')
      \<noteq> rowRoom (\<lambda>t. ''0123456789abcdef0123456789abcdef'') exampleRowC"
    by (simp add: freshSession_def rowRoom_def exampleRowC_def orElse_def makePairRoomId_def
        Let_def)
  from m e s d show ?thesis by (simp only: simp_thms)
qed

section \<open>Properties of the stage machine\<close>

subsection \<open>The range of the stage\<close>

lemma jumpDesired_range: "1 \<le> jumpDesired n \<and> jumpDesired n \<le> 5"
  by (cases n) (auto simp: jumpDesired_def)

lemma route_stage_range:
  assumes "1 \<le> stage r" "stage r \<le> 5" "route now req r = Inr r'"
  shows "1 \<le> stage r' \<and> stage r' \<le> 5"
proof (cases req)
  case Advance
  with assms show ?thesis
    by (auto simp: handleAdvanceToPeer_def ensureStage_def Let_def split: if_splits)
next
  case AdvanceFinal
  with assms show ?thesis
    by (auto simp: handleAdvanceToFinal_def ensureStage_def Let_def split: if_splits)
next
  case (Jump n)
  with assms jumpDesired_range[of n] show ?thesis
    by (auto simp: postJump_def handleJump_def ensureStage_def Let_def
        split: if_splits option.splits)
next
  case Regress
  with assms show ?thesis
    by (auto simp: handleRegress_def ensureStage_def Let_def split: if_splits)
next
  case (Prewriting t)
  with assms show ?thesis
    by (auto simp: postPrewriting_def ensureStage_def Let_def split: if_splits option.splits)
next
  case (Draft t)
  with assms show ?thesis
    by (auto simp: postDraft_def ensureStage_def Let_def split: if_splits option.splits)
next
  case (Notes t)
  with assms show ?thesis
    by (auto simp: postNotes_def ensureStage_def Let_def split: if_splits option.splits)
next
  case (Final t)
  with assms show ?thesis
    by (auto simp: postFinal_def ensureStage_def Let_def split: if_splits option.splits)
qed

lemma afterRequest_stage_range:
  "1 \<le> stage r \<Longrightarrow> stage r \<le> 5 \<Longrightarrow>
     1 \<le> stage (afterRequest now req r) \<and> stage (afterRequest now req r) \<le> 5"
  using route_stage_range[of r now req]
  by (auto simp: afterRequest_def split: sum.splits)

text \<open>
  C1, as amended. For every session whose stage is between 1 and 5 and every sequence of
  requests (advance, advance to final, jump with the jump route's clamp, regress, and the
  four content submissions as well), the stage stays between 1 and 5 inclusive. The upper
  bound is the 5 of the jump route's clamp, not 4.
\<close>

theorem stage_stays_within_1_and_5:
  "1 \<le> stage r \<Longrightarrow> stage r \<le> 5 \<Longrightarrow>
     1 \<le> stage (runRequests reqs r) \<and> stage (runRequests reqs r) \<le> 5"
proof (induction reqs arbitrary: r)
  case Nil
  then show ?case by simp
next
  case (Cons a reqs)
  obtain now req where a: "a = (now, req)" by (cases a)
  from Cons.prems afterRequest_stage_range[of r now req]
  have "1 \<le> stage (afterRequest now req r)" "stage (afterRequest now req r) \<le> 5" by auto
  from Cons.IH[OF this] show ?case by (simp add: a)
qed

theorem stage_stays_within_1_and_5_witness:
  "1 \<le> stage (freshSession ''A'' ''S1'') \<and> stage (freshSession ''A'' ''S1'') \<le> 5
   \<and> 1 \<le> stage (runRequests [(1700000000001, Jump (Num 5)), (1700000000002, Regress)]
                  (freshSession ''A'' ''S1''))
   \<and> stage (runRequests [(1700000000001, Jump (Num 5)), (1700000000002, Regress)]
                  (freshSession ''A'' ''S1'')) \<le> 5"
  using stage_stays_within_1_and_5[of "freshSession ''A'' ''S1''"
      "[(1700000000001, Jump (Num 5)), (1700000000002, Regress)]"]
  by (simp add: freshSession_def)

text \<open>
  The stage does not stay within 1 to 4: a jump request for stage 5 passes the clamp,
  meets no guard of \<open>handleJump\<close> and leaves a new session at stage 5.
\<close>

theorem jump_to_5_leaves_stage_5:
  "stage (runRequests [(1700000000001, Jump (Num 5))] (freshSession ''A'' ''S1'')) = 5
   \<and> \<not> stage (runRequests [(1700000000001, Jump (Num 5))] (freshSession ''A'' ''S1'')) \<le> 4"
  by (simp add: afterRequest_def postJump_def handleJump_def jumpGuard_def jumpDesired_def
      stageOf_def ensureStage_def freshSession_def toUpperCase_examples)

subsection \<open>Advancing to the final stage\<close>

text \<open>
  C4, as amended. For a session of group A at stage 1 with an empty draft and empty
  notes, \<open>handleAdvanceToFinal\<close> fails with status 400 and the message that asks for the
  stage-3 memo (the notes): the notes are tested before the stage and the draft. The
  failed request leaves the record, and so its stage, unchanged.
\<close>

theorem advanceToFinal_stage1_names_notes:
  assumes "groupTag r = ''A''" "stage r = 1" "draftText r = []" "notesText r = []"
  shows "handleAdvanceToFinal now r = Inl (HttpError 400 SaveStage3MemoFirst)
         \<and> afterRequest now AdvanceFinal r = r
         \<and> stage (afterRequest now AdvanceFinal r) = stage r"
  using assms by (simp add: handleAdvanceToFinal_def afterRequest_def toUpperCase_examples)

theorem advanceToFinal_stage1_names_notes_witness:
  "groupTag (freshSession ''A'' ''S1'') = ''A'' \<and> stage (freshSession ''A'' ''S1'') = 1
   \<and> draftText (freshSession ''A'' ''S1'') = [] \<and> notesText (freshSession ''A'' ''S1'') = []
   \<and> handleAdvanceToFinal 1700000000001 (freshSession ''A'' ''S1'')
       = Inl (HttpError 400 SaveStage3MemoFirst)
   \<and> stage (afterRequest 1700000000001 AdvanceFinal (freshSession ''A'' ''S1'')) = 1"
  using advanceToFinal_stage1_names_notes[of "freshSession ''A'' ''S1''" 1700000000001]
  by (simp add: freshSession_def)

text \<open>The message of that failure is not the one that names the draft (the stage-2 memo).\<close>

theorem advanceToFinal_stage1_not_draft_message:
  "handleAdvanceToFinal 1700000000001 (freshSession ''A'' ''S1'')
     = Inl (HttpError 400 SaveStage3MemoFirst)
   \<and> handleAdvanceToFinal 1700000000001 (freshSession ''A'' ''S1'')
     \<noteq> Inl (HttpError 400 SaveStage2MemoFirst)"
  by (simp add: handleAdvanceToFinal_def freshSession_def toUpperCase_examples)

subsection \<open>Advancing from the draft stage\<close>

text \<open>What \<open>handleAdvanceToPeer\<close> does, branch by branch.\<close>

lemma handleAdvanceToPeer_cases:
  "(stageOf r = 2 \<and> draftText r = [] \<longrightarrow>
      handleAdvanceToPeer now r = Inl (HttpError 400 SaveStage2MemoFirst))
   \<and> (stageOf r = 2 \<and> draftText r \<noteq> [] \<and> toUpperCase (groupTag r) = ''C'' \<longrightarrow>
      handleAdvanceToPeer now r = Inr (ensureStage now 4 r))
   \<and> (stageOf r = 2 \<and> draftText r \<noteq> [] \<and> toUpperCase (groupTag r) \<noteq> ''C'' \<longrightarrow>
      handleAdvanceToPeer now r = Inr (ensureStage now 3 r))
   \<and> (stageOf r = 3 \<and> notesText r = [] \<longrightarrow>
      handleAdvanceToPeer now r = Inl (HttpError 400 SaveStage3MemoFirst))
   \<and> (stageOf r = 3 \<and> notesText r \<noteq> [] \<longrightarrow>
      handleAdvanceToPeer now r = Inr (ensureStage now 4 r))
   \<and> (stageOf r < 2 \<longrightarrow> handleAdvanceToPeer now r = Inr (ensureStage now 2 r))"
  by (simp add: handleAdvanceToPeer_def)

text \<open>
  C7. \<open>handleAdvanceToPeer\<close> is to move a session at stage 2 with a draft to stage 3 when
  its group is peer-enabled and to stage 4 otherwise. It tests for the group C instead:
  a session of group D, which \<open>peerEnabled\<close> (the groups A and B) excludes, is moved to
  stage 3.
\<close>

theorem advanceToPeer_group_D_enters_stage_3:
  "\<not> peerEnabled (groupTag (freshSession ''D'' ''S1''))
   \<and> handleAdvanceToPeer 1700000000002
        ((freshSession ''D'' ''S1'')\<lparr>stage := 2, draftText := ''my draft''\<rparr>)
      = Inr ((freshSession ''D'' ''S1'')
               \<lparr>stage := 3, draftText := ''my draft'', updatedAt := 1700000000002\<rparr>)"
  by (simp add: handleAdvanceToPeer_def peerEnabled_def stageOf_def ensureStage_def
      freshSession_def toUpperCase_examples)

subsection \<open>Stage 3 and the groups without a peer phase\<close>

text \<open>
  C5. Stage 3 is to be unreachable for a group that is not peer-enabled. A new session of
  group D reaches it: saving a draft moves it to stage 2 and the advance request to
  stage 3.
\<close>

theorem group_D_reaches_stage_3:
  "\<not> peerEnabled (groupTag (freshSession ''D'' ''S1''))
   \<and> stage (runRequests [(1700000000001, Draft ''my draft''), (1700000000002, Advance)]
              (freshSession ''D'' ''S1'')) = 3"
  by (simp add: afterRequest_def postDraft_def requireText_def handleAdvanceToPeer_def
      peerEnabled_def stageOf_def ensureStage_def freshSession_def toUpperCase_examples
      trim_def isSpace_def)

text \<open>The jump route refuses stage 3 to the same session: for it the group has no stage 3.\<close>

lemma group_D_jump_to_3_refused:
  "postJump 1700000000003 (Num 3)
     ((freshSession ''D'' ''S1'')\<lparr>stage := 2, draftText := ''my draft''\<rparr>)
   = Inl (HttpError 400 GroupHasNoStage3)"
  by (simp add: postJump_def handleJump_def jumpDesired_def freshSession_def
      toUpperCase_examples)

text \<open>For the group C itself no request leads to stage 3.\<close>

lemma route_groupTag: "route now req r = Inr r' \<Longrightarrow> groupTag r' = groupTag r"
  by (cases req)
    (auto simp: handleAdvanceToPeer_def handleAdvanceToFinal_def postJump_def handleJump_def
      handleRegress_def postPrewriting_def postDraft_def postNotes_def postFinal_def
      ensureStage_def Let_def split: if_splits option.splits)

lemma route_group_C_never_3:
  assumes "toUpperCase (groupTag r) = ''C''" "stage r \<noteq> 3" "route now req r = Inr r'"
  shows "stage r' \<noteq> 3"
proof (cases req)
  case Advance
  with assms show ?thesis
    by (auto simp: handleAdvanceToPeer_def ensureStage_def Let_def split: if_splits)
next
  case AdvanceFinal
  with assms show ?thesis
    by (auto simp: handleAdvanceToFinal_def ensureStage_def Let_def split: if_splits)
next
  case (Jump n)
  with assms show ?thesis
    by (auto simp: postJump_def handleJump_def ensureStage_def Let_def
        split: if_splits option.splits)
next
  case Regress
  with assms show ?thesis
    by (auto simp: handleRegress_def ensureStage_def Let_def split: if_splits)
next
  case (Prewriting t)
  with assms show ?thesis
    by (auto simp: postPrewriting_def ensureStage_def Let_def split: if_splits option.splits)
next
  case (Draft t)
  with assms show ?thesis
    by (auto simp: postDraft_def ensureStage_def Let_def split: if_splits option.splits)
next
  case (Notes t)
  with assms show ?thesis
    by (auto simp: postNotes_def ensureStage_def Let_def split: if_splits option.splits)
next
  case (Final t)
  with assms show ?thesis
    by (auto simp: postFinal_def ensureStage_def Let_def split: if_splits option.splits)
qed

lemma group_C_never_reaches_stage_3:
  "toUpperCase (groupTag r) = ''C'' \<Longrightarrow> stage r \<noteq> 3 \<Longrightarrow> stage (runRequests reqs r) \<noteq> 3"
proof (induction reqs arbitrary: r)
  case Nil
  then show ?case by simp
next
  case (Cons a reqs)
  obtain now req where a: "a = (now, req)" by (cases a)
  have "toUpperCase (groupTag (afterRequest now req r)) = ''C''"
    using Cons.prems(1) route_groupTag[of now req r]
    by (auto simp: afterRequest_def split: sum.splits)
  moreover have "stage (afterRequest now req r) \<noteq> 3"
    using Cons.prems route_group_C_never_3[of r now req]
    by (auto simp: afterRequest_def split: sum.splits)
  ultimately show ?case using Cons.IH by (simp add: a)
qed

subsection \<open>The write-once blocks\<close>

text \<open>
  A second prewriting is refused, with status 400 and the message that one has already
  been submitted, and the stored text stays.
\<close>

lemma prewriting_write_once:
  "preText r \<noteq> [] \<Longrightarrow> text \<noteq> [] \<Longrightarrow>
     postPrewriting now text r = Inl (HttpError 400 PrewritingAlreadySubmitted)
     \<and> preText (afterRequest now (Prewriting text) r) = preText r"
  by (simp add: postPrewriting_def requireText_def afterRequest_def)

text \<open>
  C2. A second submission of the prewriting or of the final writing is to be refused, the
  stored text unchanged. The final route has no such test: a session that holds a final
  text accepts a second one, which replaces the first.
\<close>

theorem final_resubmission_overwrites:
  "finalText ((freshSession ''A'' ''S1'')\<lparr>stage := 4, finalText := ''first version'',
       finalSubmittedAt := 1700000000005\<rparr>) \<noteq> []
   \<and> postFinal 1700000000009 ''second version''
        ((freshSession ''A'' ''S1'')\<lparr>stage := 4, finalText := ''first version'',
           finalSubmittedAt := 1700000000005\<rparr>)
      = Inr ((freshSession ''A'' ''S1'')\<lparr>stage := 4, finalText := ''second version'',
           finalSubmittedAt := 1700000000009, updatedAt := 1700000000009\<rparr>)"
  by (simp add: postFinal_def requireText_def ensureStage_def freshSession_def trim_def
      isSpace_def)

section \<open>Properties of the partner linkage\<close>

lemma findIndex_Some:
  "findIndex P xs = Some j \<Longrightarrow> j < length xs \<and> P (xs ! j)"
proof (induction xs arbitrary: j)
  case Nil
  then show ?case by simp
next
  case (Cons x xs)
  show ?case
  proof (cases "P x")
    case True
    with Cons.prems show ?thesis by simp
  next
    case False
    with Cons.prems obtain k where "findIndex P xs = Some k" "j = Suc k"
      by (auto split: if_splits)
    with Cons.IH[of k] show ?thesis by simp
  qed
qed

lemma resolvePartner_Some:
  "resolvePartner sessions record payload = Some j \<Longrightarrow> j < length sessions"
  by (auto simp: resolvePartner_def findSession_def Let_def
      split: option.splits if_splits dest: findIndex_Some)

text \<open>
  An assignment that resolves a partner record links the two records to each other and
  gives them one room.
\<close>

lemma assignPartnerRecord_links_both_sides:
  assumes i: "i < length sessions"
    and j: "resolvePartner sessions (sessions ! i) payload = Some j"
    and keys: "sessionKey (sessions ! j) \<noteq> sessionKey (sessions ! i)"
  shows "\<exists>ss. assignPartnerRecord md5 now sessions i payload = Inr ss
      \<and> length ss = length sessions
      \<and> studentId (ss ! i) = studentId (sessions ! i)
      \<and> studentId (ss ! j) = studentId (sessions ! j)
      \<and> partnerStudentId (ss ! i) = studentId (ss ! j)
      \<and> partnerStudentId (ss ! j) = studentId (ss ! i)
      \<and> roomId (ss ! i) = roomId (ss ! j)"
proof -
  from resolvePartner_Some[OF j] have jl: "j < length sessions" .
  from keys have ij: "i \<noteq> j" by auto
  with i jl j keys show ?thesis
    by (simp add: assignPartnerRecord_def Let_def)
qed

text \<open>
  Clearing a record whose partner is found in its own group leaves neither of the two
  naming the other.
\<close>

lemma clearPartnerRecord_same_group:
  assumes i: "i < length sessions"
    and has: "partnerStudentId (sessions ! i) \<noteq> []"
    and j: "findIndex (\<lambda>s. groupTag s = groupTag (sessions ! i)
                          \<and> studentId s = partnerStudentId (sessions ! i)) sessions = Some j"
  shows "\<not> references (clearPartnerRecord now sessions i ! i) (clearPartnerRecord now sessions i ! j)
       \<and> \<not> references (clearPartnerRecord now sessions i ! j) (clearPartnerRecord now sessions i ! i)"
proof -
  from findIndex_Some[OF j] have jl: "j < length sessions" by simp
  show ?thesis
  proof (cases "i = j")
    case True
    with i has j show ?thesis
      by (simp add: clearPartnerRecord_def references_def clearFields_def Let_def)
  next
    case False
    with i jl has j show ?thesis
      by (simp add: clearPartnerRecord_def references_def clearFields_def Let_def)
  qed
qed

text \<open>
  C8. After a partner is cleared, neither the record nor its former partner is to name
  the other. \<open>assignPartnerRecord\<close> resolves a partner by session key in any group, while
  \<open>clearPartnerRecord\<close> looks for the partner in the record's own group only: a partner of
  another group, assigned by key, keeps its link when the record is cleared. (The hash
  function is not called here, both records having a room.)
\<close>

theorem clear_after_cross_group_assign_leaves_link:
  "postPartner (\<lambda>t. t) 1700000000001
      [freshSession ''A'' ''S1'', freshSession ''B'' ''S2''] ''A|S1''
      \<lparr> partnerSessionKey = ''B|S2'', payloadPartnerId = [], payloadPartnerName = [] \<rparr>
    = Inr [(freshSession ''A'' ''S1'')
             \<lparr>partnerStudentId := ''S2'', partnerName := ''Kim'', updatedAt := 1700000000001\<rparr>,
           (freshSession ''B'' ''S2'')
             \<lparr>partnerStudentId := ''S1'', partnerName := ''Kim'', updatedAt := 1700000000001\<rparr>]
   \<and> deletePartner 1700000000002
      [(freshSession ''A'' ''S1'')
         \<lparr>partnerStudentId := ''S2'', partnerName := ''Kim'', updatedAt := 1700000000001\<rparr>,
       (freshSession ''B'' ''S2'')
         \<lparr>partnerStudentId := ''S1'', partnerName := ''Kim'', updatedAt := 1700000000001\<rparr>]
      ''A|S1''
    = Inr [(freshSession ''A'' ''S1'')\<lparr>updatedAt := 1700000000002\<rparr>,
           (freshSession ''B'' ''S2'')
             \<lparr>partnerStudentId := ''S1'', partnerName := ''Kim'', updatedAt := 1700000000001\<rparr>]
   \<and> references
        ((freshSession ''B'' ''S2'')
           \<lparr>partnerStudentId := ''S1'', partnerName := ''Kim'', updatedAt := 1700000000001\<rparr>)
        ((freshSession ''A'' ''S1'')\<lparr>updatedAt := 1700000000002\<rparr>)"
  by (simp add: postPartner_def deletePartner_def assignPartnerRecord_def clearPartnerRecord_def
      resolvePartner_def findSession_def clearFields_def references_def orElse_def
      freshSession_def trim_def isSpace_def Let_def)

section \<open>Properties of the presence tracker\<close>

text \<open>
  C9. With a clock that reads at least the 20 seconds of the time-to-live (any time after
  the first 20 seconds of 1970), the summary reports each participant, the session's own
  and the partner when one is given, online exactly when the time since the last
  heartbeat is less than 20000 milliseconds, and the last heartbeat it reports for each
  is the recorded one; a touch followed at once by a summary reports the one who touched
  online with that time; a participant with no recorded heartbeat is reported offline
  with a last heartbeat of 0; and no partner is reported when none is given.
\<close>

theorem presence_summary_classifies_by_ttl:
  assumes "PRESENCE_TTL_MS \<le> now"
  shows "online (self (buildPresenceSummary now pm room sid psid))
           = (now - lastSeen (self (buildPresenceSummary now pm room sid psid)) < PRESENCE_TTL_MS)
       \<and> (\<forall>p. partner (buildPresenceSummary now pm room sid psid) = Some p \<longrightarrow>
             online p = (now - lastSeen p < PRESENCE_TTL_MS))
       \<and> (\<forall>ts. room \<noteq> [] \<and> sid \<noteq> [] \<and> pm (presenceKey room sid) = Some ts \<longrightarrow>
             lastSeen (self (buildPresenceSummary now pm room sid psid)) = ts)
       \<and> (room \<noteq> [] \<and> sid \<noteq> [] \<longrightarrow>
             fst (touchPresence now pm room sid) = Some now
             \<and> self (buildPresenceSummary now (snd (touchPresence now pm room sid)) room sid psid)
               = \<lparr> lastSeen = now, online = True \<rparr>)
       \<and> (pm (presenceKey room sid) = None \<longrightarrow>
             self (buildPresenceSummary now pm room sid psid) = \<lparr> lastSeen = 0, online = False \<rparr>)
       \<and> (\<forall>ts. room \<noteq> [] \<and> sid \<noteq> [] \<and> pm (presenceKey room sid) = Some ts \<longrightarrow>
             self (buildPresenceSummary now pm room sid psid)
               = \<lparr> lastSeen = ts, online = (now - ts < PRESENCE_TTL_MS) \<rparr>)
       \<and> (\<forall>ts. room \<noteq> [] \<and> psid \<noteq> [] \<and> pm (presenceKey room psid) = Some ts \<longrightarrow>
             partner (buildPresenceSummary now pm room sid psid)
               = Some \<lparr> lastSeen = ts, online = (now - ts < PRESENCE_TTL_MS) \<rparr>)
       \<and> (room \<noteq> [] \<and> psid \<noteq> [] \<longrightarrow>
             partner (buildPresenceSummary now (snd (touchPresence now pm room psid)) room sid psid)
               = Some \<lparr> lastSeen = now, online = True \<rparr>)
       \<and> (psid \<noteq> [] \<and> pm (presenceKey room psid) = None \<longrightarrow>
             partner (buildPresenceSummary now pm room sid psid)
               = Some \<lparr> lastSeen = 0, online = False \<rparr>)
       \<and> (psid = [] \<longrightarrow> partner (buildPresenceSummary now pm room sid psid) = None)"
proof -
  from assms have pos: "now \<noteq> 0" "\<not> now < PRESENCE_TTL_MS"
    by (simp_all add: PRESENCE_TTL_MS_def)
  have on: "isOnline now ts = (now - ts < PRESENCE_TTL_MS)" for ts
    using pos by (cases "ts = 0") (simp_all add: isOnline_def)
  have ttl: "(0::int) < PRESENCE_TTL_MS" by (simp add: PRESENCE_TTL_MS_def)
  have c1: "online (self (buildPresenceSummary now pm room sid psid))
           = (now - lastSeen (self (buildPresenceSummary now pm room sid psid)) < PRESENCE_TTL_MS)"
    by (simp add: buildPresenceSummary_def on Let_def)
  have c2: "\<forall>p. partner (buildPresenceSummary now pm room sid psid) = Some p \<longrightarrow>
             online p = (now - lastSeen p < PRESENCE_TTL_MS)"
    by (auto simp: buildPresenceSummary_def on Let_def)
  have c6: "\<forall>ts. room \<noteq> [] \<and> sid \<noteq> [] \<and> pm (presenceKey room sid) = Some ts \<longrightarrow>
             self (buildPresenceSummary now pm room sid psid)
               = \<lparr> lastSeen = ts, online = (now - ts < PRESENCE_TTL_MS) \<rparr>"
    by (simp add: buildPresenceSummary_def on Let_def readPresence_def)
  from c6 have c3: "\<forall>ts. room \<noteq> [] \<and> sid \<noteq> [] \<and> pm (presenceKey room sid) = Some ts \<longrightarrow>
             lastSeen (self (buildPresenceSummary now pm room sid psid)) = ts"
    by simp
  have c4: "room \<noteq> [] \<and> sid \<noteq> [] \<longrightarrow>
             fst (touchPresence now pm room sid) = Some now
             \<and> self (buildPresenceSummary now (snd (touchPresence now pm room sid)) room sid psid)
               = \<lparr> lastSeen = now, online = True \<rparr>"
    using pos ttl by (simp add: buildPresenceSummary_def on Let_def readPresence_def touchPresence_def)
  have c5: "pm (presenceKey room sid) = None \<longrightarrow>
             self (buildPresenceSummary now pm room sid psid) = \<lparr> lastSeen = 0, online = False \<rparr>"
    using pos by (simp add: buildPresenceSummary_def on Let_def readPresence_def)
  have c7: "\<forall>ts. room \<noteq> [] \<and> psid \<noteq> [] \<and> pm (presenceKey room psid) = Some ts \<longrightarrow>
             partner (buildPresenceSummary now pm room sid psid)
               = Some \<lparr> lastSeen = ts, online = (now - ts < PRESENCE_TTL_MS) \<rparr>"
    by (simp add: buildPresenceSummary_def on Let_def readPresence_def)
  have c8: "room \<noteq> [] \<and> psid \<noteq> [] \<longrightarrow>
             partner (buildPresenceSummary now (snd (touchPresence now pm room psid)) room sid psid)
               = Some \<lparr> lastSeen = now, online = True \<rparr>"
    using pos ttl by (simp add: buildPresenceSummary_def on Let_def readPresence_def touchPresence_def)
  have c9: "psid \<noteq> [] \<and> pm (presenceKey room psid) = None \<longrightarrow>
             partner (buildPresenceSummary now pm room sid psid)
               = Some \<lparr> lastSeen = 0, online = False \<rparr>"
    using pos by (simp add: buildPresenceSummary_def on Let_def readPresence_def)
  have c10: "psid = [] \<longrightarrow> partner (buildPresenceSummary now pm room sid psid) = None"
    by (simp add: buildPresenceSummary_def Let_def)
  from c1 c2 c3 c4 c5 c6 c7 c8 c9 c10 show ?thesis by blast
qed

theorem presence_summary_classifies_by_ttl_witness:
  "PRESENCE_TTL_MS \<le> 1700000000000
   \<and> self (buildPresenceSummary 1700000000000
        (snd (touchPresence 1700000000000 Map.empty ''r_0123456789ab'' ''S1''))
        ''r_0123456789ab'' ''S1'' ''S2'') = \<lparr> lastSeen = 1700000000000, online = True \<rparr>
   \<and> partner (buildPresenceSummary 1700000000000
        (snd (touchPresence 1700000000000 Map.empty ''r_0123456789ab'' ''S1''))
        ''r_0123456789ab'' ''S1'' ''S2'') = Some \<lparr> lastSeen = 0, online = False \<rparr>
   \<and> partner (buildPresenceSummary 1700000000000
        (snd (touchPresence 1700000000000 Map.empty ''r_0123456789ab'' ''S2''))
        ''r_0123456789ab'' ''S1'' ''S2'') = Some \<lparr> lastSeen = 1700000000000, online = True \<rparr>
   \<and> online (self (buildPresenceSummary 1700000020000
        (snd (touchPresence 1700000000000 Map.empty ''r_0123456789ab'' ''S1''))
        ''r_0123456789ab'' ''S1'' ''S2'')) = False"
proof -
  have h: "PRESENCE_TTL_MS \<le> 1700000000000" by (simp add: PRESENCE_TTL_MS_def)
  note t = presence_summary_classifies_by_ttl
    [OF h, of Map.empty "''r_0123456789ab''" "''S1''" "''S2''"]
  have a: "self (buildPresenceSummary 1700000000000
        (snd (touchPresence 1700000000000 Map.empty ''r_0123456789ab'' ''S1''))
        ''r_0123456789ab'' ''S1'' ''S2'') = \<lparr> lastSeen = 1700000000000, online = True \<rparr>"
    using t by simp
  have a': "partner (buildPresenceSummary 1700000000000
        (snd (touchPresence 1700000000000 Map.empty ''r_0123456789ab'' ''S2''))
        ''r_0123456789ab'' ''S1'' ''S2'') = Some \<lparr> lastSeen = 1700000000000, online = True \<rparr>"
    using t by simp
  have b: "partner (buildPresenceSummary 1700000000000
        (snd (touchPresence 1700000000000 Map.empty ''r_0123456789ab'' ''S1''))
        ''r_0123456789ab'' ''S1'' ''S2'') = Some \<lparr> lastSeen = 0, online = False \<rparr>"
    by (simp add: buildPresenceSummary_def readPresence_def touchPresence_def presenceKey_def
        isOnline_def)
  have c: "online (self (buildPresenceSummary 1700000020000
        (snd (touchPresence 1700000000000 Map.empty ''r_0123456789ab'' ''S1''))
        ''r_0123456789ab'' ''S1'' ''S2'')) = False"
    by (simp add: buildPresenceSummary_def readPresence_def touchPresence_def presenceKey_def
        isOnline_def PRESENCE_TTL_MS_def)
  from h a a' b c show ?thesis by simp
qed

end
